theory Spec2Isabelle
  imports Main "HOL-Library.Sublist"
begin

section \<open>Values shared by the producer and the consumer\<close>

text \<open>
  JavaScript values that are thrown, rejected with, or kept in the \<open>error\<close> store:
  a string, or an \<open>Error\<close> instance with its \<open>name\<close> and \<open>message\<close>.
  Opaque JSON payloads are carried as their text.
\<close>

datatype js_value = JsString string | JsError string string

type_synonym json = string

definition TypeError :: "string \<Rightarrow> js_value" where
  "TypeError msg = JsError ''TypeError'' msg"

datatype role = User | Assistant | Data | Tool

text \<open>
  Modelled from the spec: the declarations of \<open>../shared/types\<close> (\<open>Message\<close>,
  \<open>ToolCall\<close>, \<open>AssistantMessage\<close>, \<open>DataMessage\<close>, \<open>ToolCallMessage\<close>) are not
  part of the sources; their fields are the ones the two hooks read and write and the
  wire shapes the specification lists. A content block either carries
  \<open>text.value\<close> or has no \<open>text\<close> field.
\<close>

record ToolCallFunction =
  fn_name :: string
  fn_arguments :: json

record ToolCall =
  tc_id :: string
  tc_function :: ToolCallFunction

record ToolCallOutput =
  out_tool_call_id :: string
  out_output :: string

record Message =
  m_id :: string
  m_role :: role
  m_content :: string
  m_data :: "json option"
  m_tool_calls :: "ToolCall list option"

datatype content_block = Text string | NoText

record AssistantMessage =
  am_id :: string
  am_role :: role
  am_content :: "content_block list"

record DataMessage =
  dm_id :: "string option"
  dm_data :: json

record ControlData =
  cd_threadId :: string
  cd_messageId :: string

text \<open>One decoded event, tagged by its type code.\<close>

datatype StreamPart =
    Assistant_message AssistantMessage
  | Data_message DataMessage
  | Tool_calls "ToolCall list"
  | Assistant_control_data ControlData
  | Error_part string

section \<open>The consumer: \<open>experimental_useAssistant\<close>\<close>

datatype AssistantStatus = in_progress | awaiting_message

text \<open>
  A response body is what \<open>readDataStream\<close> (not part of the sources) makes of it:
  the events it yields, in order, and the failure the iteration raises after them, if
  any. A response without a body is \<open>None\<close>.
\<close>

record Body =
  parts :: "StreamPart list"
  failure :: "js_value option"

type_synonym Response = "Body option"

text \<open>The JSON body of one \<open>fetch\<close> request.\<close>

record Request =
  req_api :: string
  req_body :: "json option"
  req_threadId :: "string option"
  req_message :: "string option"
  req_content :: "ToolCallOutput list option"
  req_data :: "json option"
  req_role :: "string option"

text \<open>
  A promise that has settled: the time at which it settles and whether it rejected
  (\<open>Inl\<close>) or fulfilled (\<open>Inr\<close>).
\<close>

type_synonym 'a promise = "nat \<times> (js_value + 'a)"

text \<open>
  The options of the hook. The tool handler is application code: its result may depend
  on which invocation it is (counted over the lifetime of the hook).
\<close>

record UseAssistantOptions =
  api :: string
  threadIdParam :: "string option"
  body :: "json option"
  onToolCall :: "(nat \<Rightarrow> ToolCallFunction \<Rightarrow> string promise) option"

text \<open>Library functions the hook calls: \<open>nanoid()\<close> (by call number) and \<open>JSON.stringify\<close>.\<close>

record externals =
  nanoid :: "nat \<Rightarrow> string"
  JSON_stringify :: "ToolCallOutput list \<Rightarrow> string"

text \<open>
  The five stores of the hook, and the world around it: the responses the endpoint
  will answer with (in the order of the requests), the requests issued so far, and how
  often \<open>nanoid\<close> and the tool handler have been called.
\<close>

record hook =
  messages :: "Message list"
  input :: string
  threadId :: "string option"
  status :: AssistantStatus
  error :: "js_value option"
  network :: "Response list"
  requests :: "Request list"
  nanoid_calls :: nat
  handler_calls :: nat

definition initial :: "Response list \<Rightarrow> hook" where
  "initial rs = \<lparr>messages = [], input = [], threadId = None, status = awaiting_message,
     error = None, network = rs, requests = [], nanoid_calls = 0, handler_calls = 0\<rparr>"

text \<open>
  \<open>fetch\<close>: the request is issued; it resolves to the next response of the endpoint,
  and rejects when the endpoint answers no more.
\<close>

definition fetch :: "hook \<Rightarrow> Request \<Rightarrow> (js_value + Response) \<times> hook" where
  "fetch st rq =
     (case network st of
        [] \<Rightarrow> (Inl (TypeError ''Failed to fetch''), st\<lparr>requests := requests st @ [rq]\<rparr>)
      | r # rs \<Rightarrow> (Inr r, st\<lparr>network := rs, requests := requests st @ [rq]\<rparr>))"

text \<open>\<open>Array.prototype.join\<close>.\<close>

fun join :: "string \<Rightarrow> string list \<Rightarrow> string" where
  "join sep [] = []"
| "join sep [x] = x"
| "join sep (x # y # ys) = x @ sep @ join sep (y # ys)"

text \<open>
  \<open>Promise.all\<close>: rejects with the reason of the promise that rejects first (of two
  that reject at the same time, the one earlier in the array), and otherwise fulfils
  with all values in the order of the array.
\<close>

fun earliest_rejection :: "'a promise list \<Rightarrow> (nat \<times> js_value) option" where
  "earliest_rejection [] = None"
| "earliest_rejection ((t, Inr v) # ps) = earliest_rejection ps"
| "earliest_rejection ((t, Inl e) # ps) =
     (case earliest_rejection ps of
        None \<Rightarrow> Some (t, e)
      | Some (t', e') \<Rightarrow> if t' < t then Some (t', e') else Some (t, e))"

fun fulfilled :: "'a promise list \<Rightarrow> 'a list" where
  "fulfilled [] = []"
| "fulfilled ((t, Inr v) # ps) = v # fulfilled ps"
| "fulfilled ((t, Inl e) # ps) = fulfilled ps"

definition Promise_all :: "'a promise list \<Rightarrow> js_value + 'a list" where
  "Promise_all ps =
     (case earliest_rejection ps of
        Some (t, e) \<Rightarrow> Inl e
      | None \<Rightarrow> Inr (fulfilled ps))"

text \<open>
  \<open>value.tool_calls.map(async tool_call => ({tool_call_id: tool_call.id,
  output: await onToolCall(tool_call.function)}))\<close>, the first invocation being number
  \<open>n\<close>.
\<close>

definition invoke_handlers ::
  "(nat \<Rightarrow> ToolCallFunction \<Rightarrow> string promise) \<Rightarrow> nat \<Rightarrow> ToolCall list \<Rightarrow> ToolCallOutput promise list"
where
  "invoke_handlers h n tcs =
     map (\<lambda>(i, tc).
            (case h i (tc_function tc) of
               (t, Inl e) \<Rightarrow> (t, Inl e)
             | (t, Inr out) \<Rightarrow> (t, Inr \<lparr>out_tool_call_id = tc_id tc, out_output = out\<rparr>)))
         (enumerate n tcs)"

text \<open>\<open>messages.update(messages => [...messages, m])\<close> and \<open>error.set(v)\<close>.\<close>

definition messages_append :: "Message \<Rightarrow> hook \<Rightarrow> hook" where
  "messages_append m st = st\<lparr>messages := messages st @ [m]\<rparr>"

definition error_set :: "js_value \<Rightarrow> hook \<Rightarrow> hook" where
  "error_set v st = st\<lparr>error := Some v\<rparr>"

subsection \<open>The cases of the \<open>switch\<close>\<close>

text \<open>
  Each case returns the value it raises (\<open>None\<close> when it runs to its \<open>break\<close>) and
  the stores as it leaves them. \<open>value.content[0].text.value\<close> raises a
  \<open>TypeError\<close> when the content list is empty or its first block has no text; it is
  evaluated inside the updater, so nothing is appended then.
\<close>

definition case_assistant_message :: "AssistantMessage \<Rightarrow> hook \<Rightarrow> js_value option \<times> hook" where
  "case_assistant_message v st =
     (case am_content v of
        [] \<Rightarrow> (Some (TypeError ''Cannot read properties of undefined (reading 'text')''), st)
      | NoText # _ \<Rightarrow>
          (Some (TypeError ''Cannot read properties of undefined (reading 'value')''), st)
      | Text t # _ \<Rightarrow>
          (None, messages_append
             \<lparr>m_id = am_id v, m_role = am_role v, m_content = t,
              m_data = None, m_tool_calls = None\<rparr> st))"

definition case_data_message :: "DataMessage \<Rightarrow> hook \<Rightarrow> js_value option \<times> hook" where
  "case_data_message v st =
     (None, messages_append
        \<lparr>m_id = (case dm_id v of Some i \<Rightarrow> i | None \<Rightarrow> []), m_role = Data,
         m_content = [], m_data = Some (dm_data v), m_tool_calls = None\<rparr> st)"

text \<open>
  \<open>threadId.set(value.threadId)\<close> comes first; then the last message gets the id.
  With no message in the history, \<open>lastMessage\<close> is \<open>undefined\<close> and the assignment
  to its \<open>id\<close> raises.
\<close>

definition case_assistant_control_data :: "ControlData \<Rightarrow> hook \<Rightarrow> js_value option \<times> hook" where
  "case_assistant_control_data v st =
     (let st1 = st\<lparr>threadId := Some (cd_threadId v)\<rparr>
      in if messages st1 = []
         then (Some (TypeError ''Cannot set properties of undefined (setting 'id')''), st1)
         else (None, st1\<lparr>messages := butlast (messages st1) @
                       [(last (messages st1))\<lparr>m_id := cd_messageId v\<rparr>]\<rparr>))"

definition case_error :: "string \<Rightarrow> hook \<Rightarrow> js_value option \<times> hook" where
  "case_error v st = (None, error_set (JsString v) st)"

text \<open>The error text of the branch without a tool handler.\<close>

definition no_handler_text :: "ToolCall list \<Rightarrow> string" where
  "no_handler_text tcs =
     ''onToolCall is not defined for this assistant. Tool call names invoked ''
       @ join '', '' (map (\<lambda>toolCall. fn_name (tc_function toolCall)) tcs)"

text \<open>\<open>await Promise.all(value.tool_calls.map(...))\<close>: every handler is invoked.\<close>

definition await_handlers ::
  "(nat \<Rightarrow> ToolCallFunction \<Rightarrow> string promise) \<Rightarrow> ToolCall list \<Rightarrow> hook
     \<Rightarrow> (js_value + ToolCallOutput list) \<times> hook" where
  "await_handlers h tcs st =
     (Promise_all (invoke_handlers h (handler_calls st) tcs),
      st\<lparr>handler_calls := handler_calls st + length tcs\<rparr>)"

text \<open>
  How a case of the \<open>switch\<close> ends: it raises, it reaches its \<open>break\<close>, or (the
  tool calls, all handlers having succeeded) it is about to call
  \<open>submitToolOutput(toolCallOutputs)\<close> inside its \<open>try\<close>.
\<close>

datatype switched = Thrown js_value hook | Break hook | Submit "ToolCallOutput list" hook

definition hook_of :: "switched \<Rightarrow> hook" where
  "hook_of s = (case s of Thrown e st \<Rightarrow> st | Break st \<Rightarrow> st | Submit outs st \<Rightarrow> st)"

definition completed :: "js_value option \<times> hook \<Rightarrow> switched" where
  "completed r = (case r of (Some thrown, st) \<Rightarrow> Thrown thrown st | (None, st) \<Rightarrow> Break st)"

definition case_tool_calls :: "UseAssistantOptions \<Rightarrow> ToolCall list \<Rightarrow> hook \<Rightarrow> switched" where
  "case_tool_calls opts tcs st =
     (let st1 = messages_append
                  \<lparr>m_id = [], m_role = Tool, m_content = [],
                   m_data = None, m_tool_calls = Some tcs\<rparr> st
      in case onToolCall opts of
           None \<Rightarrow> Break (error_set (JsString (no_handler_text tcs)) st1)
         | Some h \<Rightarrow>
             (case await_handlers h tcs st1 of
                (Inl err, st2) \<Rightarrow> Break (error_set err st2)
              | (Inr toolCallOutputs, st2) \<Rightarrow> Submit toolCallOutputs st2))"

fun switch :: "UseAssistantOptions \<Rightarrow> StreamPart \<Rightarrow> hook \<Rightarrow> switched" where
  "switch opts (Assistant_message v) st = completed (case_assistant_message v st)"
| "switch opts (Data_message v) st = completed (case_data_message v st)"
| "switch opts (Tool_calls tcs) st = case_tool_calls opts tcs st"
| "switch opts (Assistant_control_data v) st = completed (case_assistant_control_data v st)"
| "switch opts (Error_part v) st = completed (case_error v st)"

text \<open>
  \<open>catch (err) { error.set(err); }\<close> around the handlers and \<open>submitToolOutput\<close>:
  here \<open>error\<close> is the store.
\<close>

definition catch_err :: "js_value option \<times> hook \<Rightarrow> hook" where
  "catch_err r = (case r of (None, st) \<Rightarrow> st | (Some err, st) \<Rightarrow> error_set err st)"

text \<open>
  The handler of \<open>catch (error) { error.set(error); }\<close> around the loop: inside the
  block, \<open>error\<close> is the caught value, not the store. Neither a string nor an
  \<open>Error\<close> instance has a method \<open>set\<close>, so the call raises a \<open>TypeError\<close> and
  no store is written.
\<close>

definition catch_error_set :: "js_value \<Rightarrow> hook \<Rightarrow> js_value option \<times> hook" where
  "catch_error_set caught st = (Some (TypeError ''error.set is not a function''), st)"

subsection \<open>The requests\<close>

text \<open>The thread id of a request is \<open>threadIdParam ?? get(threadId) ?? null\<close>.\<close>

definition request_threadId :: "UseAssistantOptions \<Rightarrow> hook \<Rightarrow> string option" where
  "request_threadId opts st =
     (case threadIdParam opts of Some t \<Rightarrow> Some t | None \<Rightarrow> threadId st)"

text \<open>\<open>submitToolOutput\<close> up to and including its \<open>await fetch(...)\<close>.\<close>

definition post_tool_output ::
  "externals \<Rightarrow> UseAssistantOptions \<Rightarrow> hook \<Rightarrow> ToolCallOutput list \<Rightarrow> json option
     \<Rightarrow> (js_value + Response) \<times> hook" where
  "post_tool_output ext opts st payload data =
     (let st1 = st\<lparr>status := in_progress\<rparr>;
          st2 = (messages_append
                   \<lparr>m_id = nanoid ext (nanoid_calls st1), m_role = Tool,
                    m_content = JSON_stringify ext payload,
                    m_data = data, m_tool_calls = None\<rparr> st1)
                 \<lparr>nanoid_calls := Suc (nanoid_calls st1)\<rparr>
      in fetch st2
           \<lparr>req_api = api opts, req_body = body opts,
            req_threadId = request_threadId opts st2, req_message = None,
            req_content = Some payload, req_data = data, req_role = Some ''tool''\<rparr>)"

text \<open>\<open>submitMessage\<close> up to and including its \<open>await fetch(...)\<close>, the input not being empty.\<close>

definition post_message ::
  "UseAssistantOptions \<Rightarrow> hook \<Rightarrow> json option \<Rightarrow> (js_value + Response) \<times> hook" where
  "post_message opts st data =
     (let inputValue = input st;
          st1 = st\<lparr>status := in_progress\<rparr>;
          st2 = messages_append
                  \<lparr>m_id = [], m_role = User, m_content = inputValue,
                   m_data = data, m_tool_calls = None\<rparr> st1;
          st3 = st2\<lparr>input := []\<rparr>
      in fetch st3
           \<lparr>req_api = api opts, req_body = body opts,
            req_threadId = request_threadId opts st3, req_message = Some inputValue,
            req_content = None, req_data = data, req_role = Some ''user''\<rparr>)"

subsection \<open>\<open>handleIncomingResponse\<close>, \<open>submitToolOutput\<close>, \<open>submitMessage\<close>\<close>

text \<open>
  The asynchronous functions return the value they reject with (\<open>None\<close> when they
  resolve) and the stores as they leave them. \<open>for_await\<close> is the loop of
  \<open>handleIncomingResponse\<close> over the events still to come and the failure the
  iteration ends with, if any. The functions call each other: a tool call whose
  handlers all succeed submits the outputs, which reads the next response.
\<close>

function (sequential) handleIncomingResponse ::
    "externals \<Rightarrow> UseAssistantOptions \<Rightarrow> hook \<Rightarrow> Response \<Rightarrow> js_value option \<times> hook"
  and for_await ::
    "externals \<Rightarrow> UseAssistantOptions \<Rightarrow> hook \<Rightarrow> StreamPart list \<Rightarrow> js_value option
       \<Rightarrow> js_value option \<times> hook"
  and submitToolOutput ::
    "externals \<Rightarrow> UseAssistantOptions \<Rightarrow> hook \<Rightarrow> ToolCallOutput list \<Rightarrow> json option
       \<Rightarrow> js_value option \<times> hook"
where
  "handleIncomingResponse ext opts st None =
     (Some (JsError ''Error'' ''The response body is empty.''), st)"
| "handleIncomingResponse ext opts st (Some b) =
     (case for_await ext opts st (parts b) (failure b) of
        (None, st') \<Rightarrow> (None, st')
      | (Some caught, st') \<Rightarrow> catch_error_set caught st')"
| "for_await ext opts st [] fl = (fl, st)"
| "for_await ext opts st (p # ps) fl =
     (case switch opts p st of
        Thrown thrown st' \<Rightarrow> (Some thrown, st')
      | Break st' \<Rightarrow> for_await ext opts st' ps fl
      | Submit toolCallOutputs st' \<Rightarrow>
          for_await ext opts
            (catch_err (submitToolOutput ext opts st' toolCallOutputs None)) ps fl)"
| "submitToolOutput ext opts st payload data =
     (case post_tool_output ext opts st payload data of
        (Inl rejected, st') \<Rightarrow> (Some rejected, st')
      | (Inr result, st') \<Rightarrow>
          (case handleIncomingResponse ext opts st' result of
             (Some thrown, st'') \<Rightarrow> (Some thrown, st'')
           | (None, st'') \<Rightarrow> (None, st''\<lparr>status := awaiting_message\<rparr>)))"
  by pat_completeness auto

text \<open>
  \<open>submitMessage\<close>: nothing happens when the input is empty. The optional
  \<open>event?.preventDefault?.()\<close> touches no store and is left out.
\<close>

definition submitMessage ::
  "externals \<Rightarrow> UseAssistantOptions \<Rightarrow> hook \<Rightarrow> json option \<Rightarrow> js_value option \<times> hook"
where
  "submitMessage ext opts st data =
     (if input st = [] then (None, st)
      else case post_message opts st data of
             (Inl rejected, st') \<Rightarrow> (Some rejected, st')
           | (Inr result, st') \<Rightarrow>
               (case handleIncomingResponse ext opts st' result of
                  (Some thrown, st'') \<Rightarrow> (Some thrown, st'')
                | (None, st'') \<Rightarrow> (None, st''\<lparr>status := awaiting_message\<rparr>)))"

section \<open>The hook of \<open>packages/core/svelte/use-assistant.ts\<close>\<close>

text \<open>
  This hook has no tool handler and no \<open>submitToolOutput\<close>. Its \<open>switch\<close> has the
  cases \<open>assistant_message\<close>, \<open>data_message\<close>, \<open>assistant_control_data\<close> and
  \<open>error\<close>, with the same code as above; an event of any other type matches no case.
\<close>

fun svelte_switch :: "StreamPart \<Rightarrow> hook \<Rightarrow> js_value option \<times> hook" where
  "svelte_switch (Assistant_message v) st = case_assistant_message v st"
| "svelte_switch (Data_message v) st = case_data_message v st"
| "svelte_switch (Assistant_control_data v) st = case_assistant_control_data v st"
| "svelte_switch (Error_part v) st = case_error v st"
| "svelte_switch (Tool_calls tcs) st = (None, st)"

fun svelte_for_await :: "hook \<Rightarrow> StreamPart list \<Rightarrow> js_value option \<Rightarrow> js_value option \<times> hook" where
  "svelte_for_await st [] fl = (fl, st)"
| "svelte_for_await st (p # ps) fl =
     (case svelte_switch p st of
        (Some thrown, st') \<Rightarrow> (Some thrown, st')
      | (None, st') \<Rightarrow> svelte_for_await st' ps fl)"

definition svelte_post_message ::
  "UseAssistantOptions \<Rightarrow> hook \<Rightarrow> json option \<Rightarrow> (js_value + Response) \<times> hook" where
  "svelte_post_message opts st data =
     (let inputValue = input st;
          st1 = st\<lparr>status := in_progress\<rparr>;
          st2 = messages_append
                  \<lparr>m_id = [], m_role = User, m_content = inputValue,
                   m_data = None, m_tool_calls = None\<rparr> st1;
          st3 = st2\<lparr>input := []\<rparr>
      in fetch st3
           \<lparr>req_api = api opts, req_body = body opts,
            req_threadId = request_threadId opts st3, req_message = Some inputValue,
            req_content = None, req_data = data, req_role = None\<rparr>)"

definition svelte_submitMessage ::
  "UseAssistantOptions \<Rightarrow> hook \<Rightarrow> json option \<Rightarrow> js_value option \<times> hook" where
  "svelte_submitMessage opts st data =
     (if input st = [] then (None, st)
      else case svelte_post_message opts st data of
             (Inl rejected, st') \<Rightarrow> (Some rejected, st')
           | (Inr None, st') \<Rightarrow> (Some (JsError ''Error'' ''The response body is empty.''), st')
           | (Inr (Some b), st') \<Rightarrow>
               (case svelte_for_await st' (parts b) (failure b) of
                  (Some caught, st'') \<Rightarrow> catch_error_set caught st''
                | (None, st'') \<Rightarrow> (None, st''\<lparr>status := awaiting_message\<rparr>)))"

section \<open>The producer: \<open>experimental_AssistantResponse\<close>\<close>

record AssistantResponseSettings =
  ars_threadId :: string
  ars_messageId :: string

text \<open>
  What the application callback does with the handle it is given until its promise
  settles: the calls of \<open>sendMessage\<close>, \<open>sendDataMessage\<close> and
  \<open>sendToolCallMessage\<close> it makes, in order, and the value it rejects with, if any.
  The callback is a function of the thread id and the message id in the handle. It is
  application code and may reject with any value: with \<open>null\<close> or \<open>undefined\<close>
  (\<open>Promise.reject()\<close>), which have no properties, or with a string or an \<open>Error\<close>.
\<close>

datatype rejection = RejectNull | RejectUndefined | Reject js_value

datatype sent =
    SendMessage AssistantMessage
  | SendDataMessage DataMessage
  | SendToolCallMessage "ToolCall list"

record callback_run =
  sends :: "sent list"
  rejects :: "rejection option"

type_synonym AssistantResponseCallback = "string \<Rightarrow> string \<Rightarrow> callback_run"

text \<open>
  The controller of the stream: the chunks enqueued so far and the number of calls of
  \<open>close\<close>. A chunk is \<open>textEncoder.encode(formatStreamPart(code, value))\<close>;
  \<open>formatStreamPart\<close> (of \<open>../shared/stream-parts\<close>, not part of the sources) is a
  parameter, applied to the event.
\<close>

record controller =
  queue :: "string list"
  close_calls :: nat

definition enqueue :: "string \<Rightarrow> controller \<Rightarrow> controller" where
  "enqueue chunk c = c\<lparr>queue := queue c @ [chunk]\<rparr>"

definition close :: "controller \<Rightarrow> controller" where
  "close c = c\<lparr>close_calls := Suc (close_calls c)\<rparr>"

fun part_of_sent :: "sent \<Rightarrow> StreamPart" where
  "part_of_sent (SendMessage message) = Assistant_message message"
| "part_of_sent (SendDataMessage message) = Data_message message"
| "part_of_sent (SendToolCallMessage tcs) = Tool_calls tcs"

definition send :: "(StreamPart \<Rightarrow> string) \<Rightarrow> sent \<Rightarrow> controller \<Rightarrow> controller" where
  "send formatStreamPart x c = enqueue (formatStreamPart (part_of_sent x)) c"

definition sendError :: "(StreamPart \<Rightarrow> string) \<Rightarrow> string \<Rightarrow> controller \<Rightarrow> controller" where
  "sendError formatStreamPart errorMessage c = enqueue (formatStreamPart (Error_part errorMessage)) c"

text \<open>
  \<open>(error as any).message ?? `${error}`\<close>: the message of an \<open>Error\<close>, the string
  itself for a string (it has no \<open>message\<close>). Reading \<open>message\<close> of \<open>null\<close> or
  \<open>undefined\<close> raises a \<open>TypeError\<close> before \<open>??\<close> is reached.
\<close>

fun message_text :: "rejection \<Rightarrow> js_value + string" where
  "message_text (Reject (JsError n m)) = Inr m"
| "message_text (Reject (JsString s)) = Inr s"
| "message_text RejectNull =
     Inl (TypeError ''Cannot read properties of null (reading 'message')'')"
| "message_text RejectUndefined =
     Inl (TypeError ''Cannot read properties of undefined (reading 'message')'')"

text \<open>
  The \<open>start\<close> method of the stream: the value it rejects with (\<open>None\<close> when it
  resolves) and the controller as it leaves it. What is raised inside the \<open>catch\<close>
  block leaves \<open>start\<close> after the \<open>finally\<close> block has run.
\<close>

definition start ::
  "(StreamPart \<Rightarrow> string) \<Rightarrow> AssistantResponseSettings \<Rightarrow> AssistantResponseCallback
     \<Rightarrow> js_value option \<times> controller"
where
  "start formatStreamPart settings process =
     (let c0 = \<lparr>queue = [], close_calls = 0\<rparr>;
          c1 = enqueue (formatStreamPart (Assistant_control_data
                 \<lparr>cd_threadId = ars_threadId settings, cd_messageId = ars_messageId settings\<rparr>)) c0;
          run = process (ars_threadId settings) (ars_messageId settings);
          c2 = fold (send formatStreamPart) (sends run) c1;
          (raised, c3) =
            (case rejects run of
               None \<Rightarrow> (None, c2)
             | Some thrown \<Rightarrow>
                 (case message_text thrown of
                    Inr errorMessage \<Rightarrow> (None, sendError formatStreamPart errorMessage c2)
                  | Inl raised \<Rightarrow> (Some raised, c2)))
      in (raised, close c3))"

text \<open>The response: its stream, and what \<open>start\<close> rejected with, if it did.\<close>

record http_response =
  http_status :: nat
  content_type :: string
  stream :: controller
  start_rejected :: "js_value option"

definition experimental_AssistantResponse ::
  "(StreamPart \<Rightarrow> string) \<Rightarrow> AssistantResponseSettings \<Rightarrow> AssistantResponseCallback \<Rightarrow> http_response"
where
  "experimental_AssistantResponse formatStreamPart settings process =
     \<lparr>http_status = 200, content_type = ''text/plain; charset=utf-8'',
      stream = snd (start formatStreamPart settings process),
      start_rejected = fst (start formatStreamPart settings process)\<rparr>"

section \<open>Kinds of events, and the inputs of the examples\<close>

definition is_control_data :: "StreamPart \<Rightarrow> bool" where
  "is_control_data p = (case p of Assistant_control_data v \<Rightarrow> True | _ \<Rightarrow> False)"

definition is_error_part :: "StreamPart \<Rightarrow> bool" where
  "is_error_part p = (case p of Error_part v \<Rightarrow> True | _ \<Rightarrow> False)"

definition example_ext :: externals where
  "example_ext = \<lparr>nanoid = (\<lambda>n. ''id''), JSON_stringify = (\<lambda>p. ''json'')\<rparr>"

definition example_opts :: UseAssistantOptions where
  "example_opts = \<lparr>api = ''/api'', threadIdParam = None, body = None, onToolCall = None\<rparr>"

definition user_hello :: Message where
  "user_hello =
     \<lparr>m_id = [], m_role = User, m_content = ''hello'', m_data = None, m_tool_calls = None\<rparr>"

definition two_calls :: "ToolCall list" where
  "two_calls =
     [\<lparr>tc_id = ''c1'', tc_function = \<lparr>fn_name = ''get_weather'', fn_arguments = ''{}''\<rparr>\<rparr>,
      \<lparr>tc_id = ''c2'', tc_function = \<lparr>fn_name = ''get_time'', fn_arguments = ''{}''\<rparr>\<rparr>]"

definition failing_handler :: "nat \<Rightarrow> ToolCallFunction \<Rightarrow> string promise" where
  "failing_handler i f =
     (if fn_name f = ''get_time'' then (1, Inl (JsError ''Error'' ''no clock''))
      else (2, Inr ''sunny''))"

definition broken_body :: Body where
  "broken_body = \<lparr>parts = [], failure = Some (JsError ''Error'' ''Failed to parse stream string.'')\<rparr>"



text \<open>
  The message ids that control-data events carry: those among given events, those of a
  response, and those of all the responses still to come.
\<close>

definition control_ids :: "StreamPart list \<Rightarrow> string set" where
  "control_ids ps =
     set (concat (map (\<lambda>p. case p of Assistant_control_data v \<Rightarrow> [cd_messageId v] | _ \<Rightarrow> []) ps))"

definition response_ids :: "Response \<Rightarrow> string set" where
  "response_ids r = (case r of None \<Rightarrow> {} | Some b \<Rightarrow> control_ids (parts b))"

definition network_ids :: "Response list \<Rightarrow> string set" where
  "network_ids rs = \<Union> (set (map response_ids rs))"


definition example_process :: AssistantResponseCallback where
  "example_process t m =
     \<lparr>sends = [SendMessage \<lparr>am_id = m, am_role = Assistant, am_content = [Text ''hi'']\<rparr>],
      rejects = Some (Reject (JsError ''Error'' ''boom''))\<rparr>"

definition example_process_undefined :: AssistantResponseCallback where
  "example_process_undefined t m =
     \<lparr>sends = [SendMessage \<lparr>am_id = m, am_role = Assistant, am_content = [Text ''hi'']\<rparr>],
      rejects = Some RejectUndefined\<rparr>"

definition example_format :: "StreamPart \<Rightarrow> string" where
  "example_format p =
     (case p of
        Assistant_message v \<Rightarrow> ''assistant_message:'' @ am_id v
      | Data_message v \<Rightarrow> ''data_message''
      | Tool_calls tcs \<Rightarrow> ''tool_calls''
      | Assistant_control_data v \<Rightarrow>
          ''assistant_control_data:'' @ cd_threadId v @ '','' @ cd_messageId v
      | Error_part v \<Rightarrow> ''error:'' @ v)"

section \<open>Termination of the consumer\<close>

text \<open>
  Every round trip takes one response from the endpoint, and no step gives one back:
  the number of responses still to come bounds the nesting of tool round trips.
\<close>

lemma network_messages_append [simp]: "network (messages_append m st) = network st"
  by (simp add: messages_append_def)

lemma network_error_set [simp]: "network (error_set v st) = network st"
  by (simp add: error_set_def)

lemma network_catch_err [simp]: "network (catch_err r) = network (snd r)"
  by (simp add: catch_err_def split: prod.splits option.splits)

lemma network_switch [simp]: "network (hook_of (switch opts p st)) = network st"
  by (cases p)
     (auto simp: hook_of_def completed_def case_assistant_message_def case_data_message_def
        case_assistant_control_data_def case_error_def case_tool_calls_def await_handlers_def
        Let_def split: list.splits content_block.splits option.splits sum.splits)

lemma network_post_tool_output:
  "post_tool_output ext opts st payload data = (r, st') \<Longrightarrow>
     length (network st') \<le> length (network st)"
  by (auto simp: post_tool_output_def fetch_def Let_def split: list.splits)

lemma network_post_tool_output_Inr:
  "post_tool_output ext opts st payload data = (Inr r, st') \<Longrightarrow>
     length (network st') < length (network st)"
  by (auto simp: post_tool_output_def fetch_def Let_def split: list.splits)

lemma network_partial:
  "handleIncomingResponse_for_await_submitToolOutput_dom (Inl (ext, opts, st, r)) \<Longrightarrow>
     length (network (snd (handleIncomingResponse ext opts st r))) \<le> length (network st)"
  "handleIncomingResponse_for_await_submitToolOutput_dom (Inr (Inl (ext, opts, st, ps, fl))) \<Longrightarrow>
     length (network (snd (for_await ext opts st ps fl))) \<le> length (network st)"
  "handleIncomingResponse_for_await_submitToolOutput_dom (Inr (Inr (ext, opts, st, payload, data))) \<Longrightarrow>
     length (network (snd (submitToolOutput ext opts st payload data))) \<le> length (network st)"
proof (induct rule: handleIncomingResponse_for_await_submitToolOutput.pinduct)
  case (1 ext opts st)
  then show ?case by (simp add: handleIncomingResponse.psimps)
next
  case (2 ext opts st b)
  then show ?case
    by (auto simp: handleIncomingResponse.psimps catch_error_set_def
             split: prod.splits option.splits)
next
  case (3 ext opts st fl)
  then show ?case by (simp add: for_await.psimps)
next
  case (4 ext opts st p ps fl)
  have n: "network (hook_of (switch opts p st)) = network st" by simp
  show ?case
  proof (cases "switch opts p st")
    case (Thrown e st')
    with 4(1) n show ?thesis by (simp add: for_await.psimps hook_of_def)
  next
    case (Break st')
    with 4(1) 4(2)[OF Break] n show ?thesis by (simp add: for_await.psimps hook_of_def)
  next
    case (Submit outs st')
    with 4(1) 4(3)[OF Submit] 4(4)[OF Submit] n show ?thesis
      by (simp add: for_await.psimps hook_of_def)
  qed
next
  case (5 ext opts st payload data)
  then show ?case
    using network_post_tool_output[of ext opts st payload data]
    by (auto simp: submitToolOutput.psimps split: prod.splits option.splits sum.splits)
qed

termination handleIncomingResponse
proof (relation "inv_image (less_than <*lex*> less_than <*lex*> less_than)
        (\<lambda>x. case x of
           Inl (ext, opts, st, r) \<Rightarrow> (length (network st), 2::nat, 0::nat)
         | Inr (Inl (ext, opts, st, ps, fl)) \<Rightarrow> (length (network st), 1, length ps)
         | Inr (Inr (ext, opts, st, payload, data)) \<Rightarrow> (length (network st), 0, 0))",
       goal_cases)
  case 1
  show ?case by auto
next
  case (2 ext opts st b)
  show ?case by simp
next
  case (3 ext opts st p ps fl st')
  have "network (hook_of (switch opts p st)) = network st" by simp
  with 3 show ?case by (simp add: hook_of_def)
next
  case (4 ext opts st p ps fl outs st')
  have "network (hook_of (switch opts p st)) = network st" by simp
  with 4 show ?case by (simp add: hook_of_def)
next
  case (5 ext opts st p ps fl outs st')
  have "network (hook_of (switch opts p st)) = network st" by simp
  with 5(1) network_partial(3)[OF 5(2)] show ?case by (auto simp: hook_of_def)
next
  case (6 ext opts st payload data x y b)
  then show ?case
    using network_post_tool_output_Inr[OF sym] by auto
qed

section \<open>The producer session\<close>

lemma queue_fold_send:
  "queue (fold (send f) xs c) = queue c @ map (\<lambda>x. f (part_of_sent x)) xs"
  by (induction xs arbitrary: c) (simp_all add: send_def enqueue_def)

lemma close_calls_fold_send:
  "close_calls (fold (send f) xs c) = close_calls c"
  by (induction xs arbitrary: c) (simp_all add: send_def enqueue_def)

text \<open>The error event the \<open>catch\<close> block sends, if it gets that far.\<close>

lemma queue_start:
  "queue (snd (start f s process)) =
     map f (Assistant_control_data \<lparr>cd_threadId = ars_threadId s, cd_messageId = ars_messageId s\<rparr>
            # map part_of_sent (sends (process (ars_threadId s) (ars_messageId s)))
            @ (case rejects (process (ars_threadId s) (ars_messageId s)) of
                 None \<Rightarrow> []
               | Some thrown \<Rightarrow>
                   (case message_text thrown of
                      Inr errorMessage \<Rightarrow> [Error_part errorMessage]
                    | Inl raised \<Rightarrow> [])))"
  by (simp add: start_def Let_def close_def queue_fold_send sendError_def enqueue_def
           split: option.splits sum.splits)

lemma close_calls_start: "close_calls (snd (start f s process)) = 1"
  by (simp add: start_def Let_def close_def close_calls_fold_send sendError_def enqueue_def
           split: option.splits sum.splits)

lemma start_rejects:
  "fst (start f s process) =
     (case rejects (process (ars_threadId s) (ars_messageId s)) of
        None \<Rightarrow> None
      | Some thrown \<Rightarrow>
          (case message_text thrown of Inr errorMessage \<Rightarrow> None | Inl raised \<Rightarrow> Some raised))"
  by (simp add: start_def Let_def split: option.splits sum.splits)

lemma no_control_sent: "filter is_control_data (map part_of_sent xs) = []"
proof (induction xs)
  case Nil
  show ?case by simp
next
  case (Cons x xs)
  then show ?case by (cases x) (simp_all add: is_control_data_def)
qed

lemma no_error_sent: "filter is_error_part (map part_of_sent xs) = []"
proof (induction xs)
  case Nil
  show ?case by simp
next
  case (Cons x xs)
  then show ?case by (cases x) (simp_all add: is_error_part_def)
qed

text \<open>
  Claim C5. In every session of \<open>experimental_AssistantResponse\<close> the first chunk of the
  stream is the control-data event with the given thread id and message id; it is the
  only control-data event of the stream, and the events the callback sends follow it in
  the order of the calls.
\<close>

theorem control_data_first:
  "\<exists>rest. queue (stream (experimental_AssistantResponse f s process)) =
       map f (Assistant_control_data \<lparr>cd_threadId = ars_threadId s, cd_messageId = ars_messageId s\<rparr> # rest)
     \<and> filter is_control_data rest = []
     \<and> take (length (sends (process (ars_threadId s) (ars_messageId s)))) rest =
         map part_of_sent (sends (process (ars_threadId s) (ars_messageId s)))"
proof -
  let ?run = "process (ars_threadId s) (ars_messageId s)"
  let ?rest = "map part_of_sent (sends ?run)
                 @ (case rejects ?run of
                      None \<Rightarrow> []
                    | Some thrown \<Rightarrow>
                        (case message_text thrown of
                           Inr errorMessage \<Rightarrow> [Error_part errorMessage]
                         | Inl raised \<Rightarrow> []))"
  have "queue (stream (experimental_AssistantResponse f s process)) =
          map f (Assistant_control_data \<lparr>cd_threadId = ars_threadId s, cd_messageId = ars_messageId s\<rparr> # ?rest)"
    by (simp add: experimental_AssistantResponse_def queue_start)
  moreover have "filter is_control_data ?rest = []"
    by (simp add: no_control_sent is_control_data_def split: option.splits sum.splits)
  moreover have "take (length (sends ?run)) ?rest = map part_of_sent (sends ?run)"
    by simp
  ultimately show ?thesis by blast
qed

text \<open>
  Claim C6 against the code. In every session \<open>close\<close> is called exactly once. A
  callback that resolves adds no error event. A callback that rejects with an \<open>Error\<close>
  adds one error event carrying its message, and one that rejects with a string adds one
  carrying the string, after the control data and whatever the callback sent; no other
  event of the stream is an error event. A callback that rejects with \<open>null\<close> or
  \<open>undefined\<close> gets no error event: reading \<open>message\<close> raises in the \<open>catch\<close>
  block, the stream ends after what the callback sent, and \<open>start\<close> rejects with the
  \<open>TypeError\<close>.
\<close>

theorem callback_failure_error_event:
  "close_calls (stream (experimental_AssistantResponse f s process)) = 1
   \<and> filter is_error_part
         (Assistant_control_data \<lparr>cd_threadId = ars_threadId s, cd_messageId = ars_messageId s\<rparr>
          # map part_of_sent (sends (process (ars_threadId s) (ars_messageId s)))) = []
   \<and> (rejects (process (ars_threadId s) (ars_messageId s)) = None \<longrightarrow>
        queue (stream (experimental_AssistantResponse f s process)) =
          map f (Assistant_control_data \<lparr>cd_threadId = ars_threadId s, cd_messageId = ars_messageId s\<rparr>
                 # map part_of_sent (sends (process (ars_threadId s) (ars_messageId s))))
        \<and> start_rejected (experimental_AssistantResponse f s process) = None)
   \<and> (rejects (process (ars_threadId s) (ars_messageId s)) = Some (Reject (JsError n m)) \<longrightarrow>
        queue (stream (experimental_AssistantResponse f s process)) =
          map f (Assistant_control_data \<lparr>cd_threadId = ars_threadId s, cd_messageId = ars_messageId s\<rparr>
                 # map part_of_sent (sends (process (ars_threadId s) (ars_messageId s)))
                 @ [Error_part m])
        \<and> start_rejected (experimental_AssistantResponse f s process) = None)
   \<and> (rejects (process (ars_threadId s) (ars_messageId s)) = Some (Reject (JsString t)) \<longrightarrow>
        queue (stream (experimental_AssistantResponse f s process)) =
          map f (Assistant_control_data \<lparr>cd_threadId = ars_threadId s, cd_messageId = ars_messageId s\<rparr>
                 # map part_of_sent (sends (process (ars_threadId s) (ars_messageId s)))
                 @ [Error_part t])
        \<and> start_rejected (experimental_AssistantResponse f s process) = None)
   \<and> (rejects (process (ars_threadId s) (ars_messageId s)) = Some RejectNull \<longrightarrow>
        queue (stream (experimental_AssistantResponse f s process)) =
          map f (Assistant_control_data \<lparr>cd_threadId = ars_threadId s, cd_messageId = ars_messageId s\<rparr>
                 # map part_of_sent (sends (process (ars_threadId s) (ars_messageId s))))
        \<and> start_rejected (experimental_AssistantResponse f s process) =
            Some (TypeError ''Cannot read properties of null (reading 'message')''))
   \<and> (rejects (process (ars_threadId s) (ars_messageId s)) = Some RejectUndefined \<longrightarrow>
        queue (stream (experimental_AssistantResponse f s process)) =
          map f (Assistant_control_data \<lparr>cd_threadId = ars_threadId s, cd_messageId = ars_messageId s\<rparr>
                 # map part_of_sent (sends (process (ars_threadId s) (ars_messageId s))))
        \<and> start_rejected (experimental_AssistantResponse f s process) =
            Some (TypeError ''Cannot read properties of undefined (reading 'message')''))"
  by (simp add: experimental_AssistantResponse_def queue_start close_calls_start start_rejects
        no_error_sent is_error_part_def)

theorem callback_failure_error_event_witness:
  "rejects (example_process ''t1'' ''m1'') = Some (Reject (JsError ''Error'' ''boom''))
   \<and> queue (stream (experimental_AssistantResponse example_format
        \<lparr>ars_threadId = ''t1'', ars_messageId = ''m1''\<rparr> example_process))
       = [''assistant_control_data:t1,m1'', ''assistant_message:m1'', ''error:boom'']
   \<and> close_calls (stream (experimental_AssistantResponse example_format
        \<lparr>ars_threadId = ''t1'', ars_messageId = ''m1''\<rparr> example_process)) = 1
   \<and> rejects (example_process_undefined ''t1'' ''m1'') = Some RejectUndefined
   \<and> queue (stream (experimental_AssistantResponse example_format
        \<lparr>ars_threadId = ''t1'', ars_messageId = ''m1''\<rparr> example_process_undefined))
       = [''assistant_control_data:t1,m1'', ''assistant_message:m1'']
   \<and> start_rejected (experimental_AssistantResponse example_format
        \<lparr>ars_threadId = ''t1'', ars_messageId = ''m1''\<rparr> example_process_undefined)
       = Some (TypeError ''Cannot read properties of undefined (reading 'message')'')"
  using callback_failure_error_event
          [where f = example_format and s = "\<lparr>ars_threadId = ''t1'', ars_messageId = ''m1''\<rparr>"
             and process = example_process and n = "''Error''" and m = "''boom''" and t = "[]"]
        callback_failure_error_event
          [where f = example_format and s = "\<lparr>ars_threadId = ''t1'', ars_messageId = ''m1''\<rparr>"
             and process = example_process_undefined and n = "''Error''" and m = "''boom''"
             and t = "[]"]
  by (simp add: example_process_def example_process_undefined_def example_format_def)

section \<open>The cases of the consumer's \<open>switch\<close>\<close>

text \<open>
  Claim C4, as the code has it. A control-data event binds \<open>threadId\<close> to the thread id
  it carries, whatever was bound before: the last control-data event wins. This holds in
  both hooks, also when the history is empty and the back-fill raises.
\<close>

theorem control_data_rebinds_threadId:
  "threadId (snd (case_assistant_control_data v st)) = Some (cd_threadId v)
   \<and> threadId (hook_of (switch opts (Assistant_control_data v) st)) = Some (cd_threadId v)
   \<and> threadId (snd (svelte_switch (Assistant_control_data v) st)) = Some (cd_threadId v)"
  by (simp add: hook_of_def completed_def case_assistant_control_data_def Let_def)

text \<open>
  Claim C4 as stated fails: after a first control-data event has bound \<open>t1\<close>, a second
  one carrying \<open>t2\<close> changes the bound thread id to \<open>t2\<close>.
\<close>

theorem threadId_write_once_counterexample:
  "threadId (snd (for_await example_ext example_opts (messages_append user_hello (initial []))
       [Assistant_control_data \<lparr>cd_threadId = ''t1'', cd_messageId = ''m1''\<rparr>] None)) = Some ''t1''
   \<and> threadId (snd (for_await example_ext example_opts (messages_append user_hello (initial []))
       [Assistant_control_data \<lparr>cd_threadId = ''t1'', cd_messageId = ''m1''\<rparr>,
        Assistant_control_data \<lparr>cd_threadId = ''t2'', cd_messageId = ''m2''\<rparr>] None)) = Some ''t2''"
  by (simp add: completed_def case_assistant_control_data_def Let_def messages_append_def initial_def)



lemma sublist_join: "x \<in> set xs \<Longrightarrow> sublist x (join sep xs)"
proof (induction sep xs rule: join.induct)
  case (1 sep)
  then show ?case by simp
next
  case (2 sep y)
  then show ?case by simp
next
  case (3 sep y z zs)
  show ?case
  proof (cases "x = y")
    case True
    then show ?thesis by simp
  next
    case False
    with 3 have "sublist x (join sep (z # zs))" by simp
    then obtain ps ss where "join sep (z # zs) = ps @ x @ ss" by (auto simp: sublist_def)
    then have "join sep (y # z # zs) = (y @ sep @ ps) @ x @ ss" by simp
    then show ?thesis unfolding sublist_def by blast
  qed
qed

text \<open>
  Claim C8. Without a tool handler, a tool-calls event records as the error the text
  that joins the names of all requested functions, so every requested name occurs in it;
  the case ends at its \<open>break\<close>, no request is issued and no response is consumed, and
  the loop goes on with the next event.
\<close>

theorem no_handler_records_names:
  assumes "onToolCall opts = None"
  shows "\<exists>st'. switch opts (Tool_calls tcs) st = Break st'
     \<and> for_await ext opts st (Tool_calls tcs # ps) fl = for_await ext opts st' ps fl
     \<and> error st' = Some (JsString (no_handler_text tcs))
     \<and> (\<forall>tc \<in> set tcs. sublist (fn_name (tc_function tc)) (no_handler_text tcs))
     \<and> requests st' = requests st \<and> network st' = network st"
proof -
  have names: "\<forall>tc \<in> set tcs. sublist (fn_name (tc_function tc)) (no_handler_text tcs)"
  proof
    fix tc assume "tc \<in> set tcs"
    then have "fn_name (tc_function tc) \<in> set (map (\<lambda>toolCall. fn_name (tc_function toolCall)) tcs)"
      by simp
    then have "sublist (fn_name (tc_function tc))
                 (join '', '' (map (\<lambda>toolCall. fn_name (tc_function toolCall)) tcs))"
      by (rule sublist_join)
    then obtain ps ss where
      "join '', '' (map (\<lambda>toolCall. fn_name (tc_function toolCall)) tcs)
         = ps @ fn_name (tc_function tc) @ ss"
      by (auto simp: sublist_def)
    then have "no_handler_text tcs =
        (''onToolCall is not defined for this assistant. Tool call names invoked '' @ ps)
          @ fn_name (tc_function tc) @ ss"
      by (simp add: no_handler_text_def)
    then show "sublist (fn_name (tc_function tc)) (no_handler_text tcs)"
      unfolding sublist_def by blast
  qed
  have sw: "switch opts (Tool_calls tcs) st =
      Break (error_set (JsString (no_handler_text tcs))
        (messages_append \<lparr>m_id = [], m_role = Tool, m_content = [],
                   m_data = None, m_tool_calls = Some tcs\<rparr> st))"
    using assms by (simp add: case_tool_calls_def Let_def)
  have "for_await ext opts st (Tool_calls tcs # ps) fl =
      for_await ext opts (error_set (JsString (no_handler_text tcs))
        (messages_append \<lparr>m_id = [], m_role = Tool, m_content = [],
                   m_data = None, m_tool_calls = Some tcs\<rparr> st)) ps fl"
    by (simp only: for_await.simps sw switched.case)
  moreover have "error (error_set (JsString (no_handler_text tcs))
        (messages_append \<lparr>m_id = [], m_role = Tool, m_content = [],
                   m_data = None, m_tool_calls = Some tcs\<rparr> st)) = Some (JsString (no_handler_text tcs))"
    by (simp add: error_set_def)
  moreover have "requests (error_set (JsString (no_handler_text tcs))
        (messages_append \<lparr>m_id = [], m_role = Tool, m_content = [],
                   m_data = None, m_tool_calls = Some tcs\<rparr> st)) = requests st"
    by (simp add: error_set_def messages_append_def)
  moreover have "network (error_set (JsString (no_handler_text tcs))
        (messages_append \<lparr>m_id = [], m_role = Tool, m_content = [],
                   m_data = None, m_tool_calls = Some tcs\<rparr> st)) = network st"
    by simp
  ultimately show ?thesis using sw names by blast
qed

theorem no_handler_records_names_witness:
  "onToolCall example_opts = None
   \<and> (\<exists>st'. switch example_opts (Tool_calls two_calls) (initial []) = Break st'
        \<and> error st' = Some (JsString
             ''onToolCall is not defined for this assistant. Tool call names invoked get_weather, get_time'')
        \<and> requests st' = [])"
  using no_handler_records_names [of example_opts two_calls "initial []" example_ext "[]" None]
  by (auto simp: example_opts_def two_calls_def no_handler_text_def initial_def)

section \<open>Tool calls with a handler\<close>

lemma earliest_rejection_mem:
  "earliest_rejection ps = Some (t, e) \<Longrightarrow> (t, Inl e) \<in> set ps"
  by (induction ps arbitrary: t e rule: earliest_rejection.induct)
     (auto split: option.splits if_splits)

lemma earliest_rejection_None:
  "earliest_rejection ps = None \<Longrightarrow> (t, Inl e) \<notin> set ps"
  by (induction ps rule: earliest_rejection.induct) (auto split: option.splits if_splits)

lemma earliest_rejection_Some:
  "(t, Inl e) \<in> set ps \<Longrightarrow> \<exists>r. earliest_rejection ps = Some r"
  using earliest_rejection_None by (cases "earliest_rejection ps") auto

lemma fulfilled_all:
  "earliest_rejection ps = None \<Longrightarrow>
     length (fulfilled ps) = length ps \<and> (\<forall>i<length ps. snd (ps ! i) = Inr (fulfilled ps ! i))"
proof (induction ps rule: earliest_rejection.induct)
  case 1
  show ?case by simp
next
  case (2 t v ps)
  then show ?case by (auto simp: nth_Cons split: nat.splits)
next
  case (3 t e ps)
  then show ?case by (auto split: option.splits if_splits)
qed

lemma length_invoke_handlers [simp]: "length (invoke_handlers h n tcs) = length tcs"
  by (simp add: invoke_handlers_def)

lemma invoke_handlers_nth:
  "i < length tcs \<Longrightarrow>
     invoke_handlers h n tcs ! i =
       (case h (n + i) (tc_function (tcs ! i)) of
          (t, Inl e) \<Rightarrow> (t, Inl e)
        | (t, Inr out) \<Rightarrow> (t, Inr \<lparr>out_tool_call_id = tc_id (tcs ! i), out_output = out\<rparr>))"
  by (simp add: invoke_handlers_def nth_enumerate_eq)

lemma invoke_handlers_rejected:
  assumes "i < length tcs" and "snd (h (n + i) (tc_function (tcs ! i))) = Inl e"
  shows "\<exists>t. (t, Inl e) \<in> set (invoke_handlers h n tcs)"
proof -
  obtain t where "h (n + i) (tc_function (tcs ! i)) = (t, Inl e)"
    using assms(2) by (cases "h (n + i) (tc_function (tcs ! i))") auto
  with assms(1) have "invoke_handlers h n tcs ! i = (t, Inl e)"
    by (simp add: invoke_handlers_nth)
  with assms(1) show ?thesis by (metis length_invoke_handlers nth_mem)
qed

lemma invoke_handlers_rejection_origin:
  assumes "(t, Inl e) \<in> set (invoke_handlers h n tcs)"
  shows "\<exists>j<length tcs. snd (h (n + j) (tc_function (tcs ! j))) = Inl e"
proof -
  from assms obtain j where j: "j < length tcs" "invoke_handlers h n tcs ! j = (t, Inl e)"
    by (auto simp: in_set_conv_nth)
  then have "snd (h (n + j) (tc_function (tcs ! j))) = Inl e"
    by (auto simp: invoke_handlers_nth split: prod.splits sum.splits)
  with j(1) show ?thesis by blast
qed

lemma invoke_handlers_fulfilled:
  assumes "j < length tcs" and "snd (invoke_handlers h n tcs ! j) = Inr out"
  shows "out_tool_call_id out = tc_id (tcs ! j)
         \<and> snd (h (n + j) (tc_function (tcs ! j))) = Inr (out_output out)"
  using assms by (auto simp: invoke_handlers_nth split: prod.splits sum.splits)

lemma handler_calls_messages_append [simp]:
  "handler_calls (messages_append m st) = handler_calls st"
  by (simp add: messages_append_def)

text \<open>
  Claim C7. With a tool handler configured, if any of the invocations for the calls of a
  tool-calls event fails, every handler has been invoked, the failure of one of the
  failing invocations (the one \<open>Promise.all\<close> rejects with) is recorded as the error,
  the case ends at its \<open>break\<close> without calling \<open>submitToolOutput\<close>, and no request
  is issued and no response consumed.
\<close>

theorem handler_failure_submits_nothing:
  assumes "onToolCall opts = Some h"
    and "i < length tcs"
    and "snd (h (handler_calls st + i) (tc_function (tcs ! i))) = Inl e0"
  shows "\<exists>st' e. switch opts (Tool_calls tcs) st = Break st'
     \<and> for_await ext opts st (Tool_calls tcs # ps) fl = for_await ext opts st' ps fl
     \<and> error st' = Some e
     \<and> (\<exists>j<length tcs. snd (h (handler_calls st + j) (tc_function (tcs ! j))) = Inl e)
     \<and> handler_calls st' = handler_calls st + length tcs
     \<and> requests st' = requests st \<and> network st' = network st"
proof -
  let ?st1 = "messages_append \<lparr>m_id = [], m_role = Tool, m_content = [],
                   m_data = None, m_tool_calls = Some tcs\<rparr> st"
  let ?ps = "invoke_handlers h (handler_calls st) tcs"
  from assms(2,3) obtain t0 where "(t0, Inl e0) \<in> set ?ps"
    using invoke_handlers_rejected by blast
  then obtain r where "earliest_rejection ?ps = Some r"
    using earliest_rejection_Some by blast
  then obtain t e where te: "earliest_rejection ?ps = Some (t, e)" by (cases r) auto
  then have origin: "\<exists>j<length tcs. snd (h (handler_calls st + j) (tc_function (tcs ! j))) = Inl e"
    using earliest_rejection_mem invoke_handlers_rejection_origin by blast
  let ?st' = "error_set e (?st1\<lparr>handler_calls := handler_calls st + length tcs\<rparr>)"
  have sw: "switch opts (Tool_calls tcs) st = Break ?st'"
    using assms(1) te
    by (simp add: case_tool_calls_def Let_def await_handlers_def Promise_all_def)
  have "for_await ext opts st (Tool_calls tcs # ps) fl = for_await ext opts ?st' ps fl"
    by (simp only: for_await.simps sw switched.case)
  moreover have "error ?st' = Some e" by (simp add: error_set_def)
  moreover have "handler_calls ?st' = handler_calls st + length tcs" by (simp add: error_set_def)
  moreover have "requests ?st' = requests st" by (simp add: error_set_def messages_append_def)
  moreover have "network ?st' = network st" by (simp add: error_set_def messages_append_def)
  ultimately show ?thesis using sw origin by blast
qed

theorem handler_failure_submits_nothing_witness:
  "onToolCall (example_opts\<lparr>onToolCall := Some failing_handler\<rparr>) = Some failing_handler
   \<and> (1::nat) < length two_calls
   \<and> snd (failing_handler (handler_calls (initial []) + 1) (tc_function (two_calls ! 1)))
       = Inl (JsError ''Error'' ''no clock'')
   \<and> (\<exists>st'. switch (example_opts\<lparr>onToolCall := Some failing_handler\<rparr>) (Tool_calls two_calls)
                (initial []) = Break st'
          \<and> error st' = Some (JsError ''Error'' ''no clock'') \<and> requests st' = [])"
proof -
  have a: "onToolCall (example_opts\<lparr>onToolCall := Some failing_handler\<rparr>) = Some failing_handler"
    by simp
  have b: "(1::nat) < length two_calls" by (simp add: two_calls_def)
  have c: "snd (failing_handler (handler_calls (initial []) + 1) (tc_function (two_calls ! 1)))
       = Inl (JsError ''Error'' ''no clock'')"
    by (simp add: failing_handler_def two_calls_def)
  from handler_failure_submits_nothing [OF a b c, of example_ext "[]" None]
  obtain st' e where st': "switch (example_opts\<lparr>onToolCall := Some failing_handler\<rparr>)
        (Tool_calls two_calls) (initial []) = Break st'" "error st' = Some e"
      "\<exists>j<length two_calls.
         snd (failing_handler (handler_calls (initial []) + j) (tc_function (two_calls ! j))) = Inl e"
      "requests st' = requests (initial [])"
    by blast
  from st'(3) have "e = JsError ''Error'' ''no clock''"
    by (auto simp: two_calls_def failing_handler_def less_Suc_eq split: if_splits)
  with st' a b c show ?thesis by (auto simp: initial_def)
qed

section \<open>Status and failures of a round trip\<close>

text \<open>
  Claim C1, as the code has it. A call of \<open>submitMessage\<close> or \<open>submitToolOutput\<close> that
  begins a round trip and returns without raising leaves \<open>status\<close> at
  \<open>awaiting_message\<close>. When the response has no body, the call raises the
  empty-body failure to its caller and \<open>status\<close> stays \<open>in_progress\<close>: the
  \<open>throw\<close> leaves the function before \<open>status.set('awaiting_message')\<close>.
\<close>

theorem status_after_submit:
  "(input st \<noteq> [] \<and> fst (submitMessage ext opts st data) = None \<longrightarrow>
      status (snd (submitMessage ext opts st data)) = awaiting_message)
   \<and> (fst (submitToolOutput ext opts st payload data) = None \<longrightarrow>
      status (snd (submitToolOutput ext opts st payload data)) = awaiting_message)
   \<and> (input st \<noteq> [] \<and> fst (svelte_submitMessage opts st data) = None \<longrightarrow>
      status (snd (svelte_submitMessage opts st data)) = awaiting_message)
   \<and> (input st \<noteq> [] \<and> network st = None # rs \<longrightarrow>
      fst (submitMessage ext opts st data) = Some (JsError ''Error'' ''The response body is empty.'')
      \<and> status (snd (submitMessage ext opts st data)) = in_progress
      \<and> fst (svelte_submitMessage opts st data) = Some (JsError ''Error'' ''The response body is empty.'')
      \<and> status (snd (svelte_submitMessage opts st data)) = in_progress)
   \<and> (network st = None # rs \<longrightarrow>
      fst (submitToolOutput ext opts st payload data) = Some (JsError ''Error'' ''The response body is empty.'')
      \<and> status (snd (submitToolOutput ext opts st payload data)) = in_progress)"
proof (intro conjI impI)
  assume "input st \<noteq> [] \<and> fst (submitMessage ext opts st data) = None"
  then show "status (snd (submitMessage ext opts st data)) = awaiting_message"
    by (auto simp: submitMessage_def split: prod.splits sum.splits option.splits)
next
  assume "fst (submitToolOutput ext opts st payload data) = None"
  then show "status (snd (submitToolOutput ext opts st payload data)) = awaiting_message"
    by (auto split: prod.splits sum.splits option.splits)
next
  assume "input st \<noteq> [] \<and> fst (svelte_submitMessage opts st data) = None"
  then show "status (snd (svelte_submitMessage opts st data)) = awaiting_message"
    by (auto simp: svelte_submitMessage_def catch_error_set_def
             split: prod.splits sum.splits option.splits)
next
  assume a: "input st \<noteq> [] \<and> network st = None # rs"
  then show "fst (submitMessage ext opts st data) = Some (JsError ''Error'' ''The response body is empty.'')"
    by (simp add: submitMessage_def post_message_def fetch_def Let_def messages_append_def)
  from a show "status (snd (submitMessage ext opts st data)) = in_progress"
    by (simp add: submitMessage_def post_message_def fetch_def Let_def messages_append_def)
  from a show "fst (svelte_submitMessage opts st data) = Some (JsError ''Error'' ''The response body is empty.'')"
    by (simp add: svelte_submitMessage_def svelte_post_message_def fetch_def Let_def messages_append_def)
  from a show "status (snd (svelte_submitMessage opts st data)) = in_progress"
    by (simp add: svelte_submitMessage_def svelte_post_message_def fetch_def Let_def messages_append_def)
next
  assume a: "network st = None # rs"
  then show "fst (submitToolOutput ext opts st payload data) = Some (JsError ''Error'' ''The response body is empty.'')"
    by (simp add: post_tool_output_def fetch_def Let_def messages_append_def)
  from a show "status (snd (submitToolOutput ext opts st payload data)) = in_progress"
    by (simp add: post_tool_output_def fetch_def Let_def messages_append_def)
qed

theorem status_after_submit_witness:
  "input ((initial [Some \<lparr>parts = [], failure = None\<rparr>])\<lparr>input := ''hello''\<rparr>) \<noteq> []
   \<and> fst (submitMessage example_ext example_opts
            ((initial [Some \<lparr>parts = [], failure = None\<rparr>])\<lparr>input := ''hello''\<rparr>) None) = None
   \<and> status (snd (submitMessage example_ext example_opts
            ((initial [Some \<lparr>parts = [], failure = None\<rparr>])\<lparr>input := ''hello''\<rparr>) None)) = awaiting_message
   \<and> network ((initial [None])\<lparr>input := ''hello''\<rparr>) = None # []
   \<and> status (snd (submitMessage example_ext example_opts
            ((initial [None])\<lparr>input := ''hello''\<rparr>) None)) = in_progress"
proof -
  let ?ok = "(initial [Some \<lparr>parts = [], failure = None\<rparr>])\<lparr>input := ''hello''\<rparr>"
  let ?empty = "(initial [None])\<lparr>input := ''hello''\<rparr>"
  have a: "input ?ok \<noteq> []" by (simp add: initial_def)
  have b: "fst (submitMessage example_ext example_opts ?ok None) = None"
    by (simp add: submitMessage_def post_message_def fetch_def Let_def messages_append_def initial_def)
  have c: "network ?empty = None # []" by (simp add: initial_def)
  have d: "input ?empty \<noteq> []" by (simp add: initial_def)
  from status_after_submit [where st = ?ok and ext = example_ext and opts = example_opts and data = None and payload = "[]" and rs = "[]"] a b
  have 1: "status (snd (submitMessage example_ext example_opts ?ok None)) = awaiting_message"
    by blast
  from status_after_submit [where st = ?empty and ext = example_ext and opts = example_opts and data = None and payload = "[]" and rs = "[]"] c d
  have 2: "status (snd (submitMessage example_ext example_opts ?empty None)) = in_progress"
    by blast
  from a b c 1 2 show ?thesis by blast
qed

text \<open>
  Claim C1 as stated fails: submitting \<open>hello\<close> to an endpoint that answers without a
  body raises, and \<open>status\<close> is \<open>in_progress\<close> afterwards, in both hooks and in
  \<open>submitToolOutput\<close>.
\<close>

theorem status_stuck_counterexample:
  "fst (submitMessage example_ext example_opts ((initial [None])\<lparr>input := ''hello''\<rparr>) None)
     = Some (JsError ''Error'' ''The response body is empty.'')
   \<and> status (snd (submitMessage example_ext example_opts
        ((initial [None])\<lparr>input := ''hello''\<rparr>) None)) = in_progress
   \<and> status (snd (submitMessage example_ext example_opts
        ((initial [None])\<lparr>input := ''hello''\<rparr>) None)) \<noteq> awaiting_message
   \<and> status (snd (svelte_submitMessage example_opts
        ((initial [None])\<lparr>input := ''hello''\<rparr>) None)) \<noteq> awaiting_message
   \<and> status (snd (submitToolOutput example_ext example_opts (initial [None]) [] None))
        \<noteq> awaiting_message"
  by (simp add: submitMessage_def post_message_def svelte_submitMessage_def
        svelte_post_message_def post_tool_output_def fetch_def Let_def messages_append_def
        initial_def)

text \<open>
  Claim C2 against the code. When the iteration over the decoded events raises, the
  \<open>catch\<close> block calls \<open>set\<close> on the caught value, which raises a \<open>TypeError\<close>:
  \<open>handleIncomingResponse\<close> rejects with it and writes no store. At the failing
  input (a body whose iteration raises at once) \<open>submitMessage\<close> of either hook and
  \<open>submitToolOutput\<close> reject with that \<open>TypeError\<close>, the \<open>error\<close> store is still
  empty, and \<open>status\<close> is still \<open>in_progress\<close>.
\<close>

theorem iteration_failure_reaches_caller:
  "handleIncomingResponse ext opts st (Some \<lparr>parts = [], failure = Some thrown\<rparr>)
     = (Some (TypeError ''error.set is not a function''), st)
   \<and> fst (submitMessage example_ext example_opts
            ((initial [Some broken_body])\<lparr>input := ''hello''\<rparr>) None)
       = Some (TypeError ''error.set is not a function'')
   \<and> error (snd (submitMessage example_ext example_opts
            ((initial [Some broken_body])\<lparr>input := ''hello''\<rparr>) None)) = None
   \<and> status (snd (submitMessage example_ext example_opts
            ((initial [Some broken_body])\<lparr>input := ''hello''\<rparr>) None)) = in_progress
   \<and> fst (svelte_submitMessage example_opts
            ((initial [Some broken_body])\<lparr>input := ''hello''\<rparr>) None)
       = Some (TypeError ''error.set is not a function'')
   \<and> error (snd (svelte_submitMessage example_opts
            ((initial [Some broken_body])\<lparr>input := ''hello''\<rparr>) None)) = None
   \<and> fst (submitToolOutput example_ext example_opts (initial [Some broken_body]) [] None)
       = Some (TypeError ''error.set is not a function'')
   \<and> error (snd (submitToolOutput example_ext example_opts (initial [Some broken_body]) [] None))
       = None"
  by (simp add: submitMessage_def post_message_def svelte_submitMessage_def
        svelte_post_message_def post_tool_output_def fetch_def Let_def messages_append_def
        initial_def catch_error_set_def broken_body_def)


section \<open>What a round trip keeps\<close>

text \<open>
  A relation on the stores that every step of the consumer respects, and that is
  reflexive and transitive, holds between the stores before and after each of the three
  functions.
\<close>

lemma consumer_preserves:
  assumes refl: "\<And>st. R st st"
    and trans: "\<And>a b c. R a b \<Longrightarrow> R b c \<Longrightarrow> R a c"
    and sw: "\<And>opts p st. R st (hook_of (switch opts p st))"
    and post: "\<And>ext opts st payload data. R st (snd (post_tool_output ext opts st payload data))"
    and err: "\<And>v st. R st (error_set v st)"
    and stat: "\<And>st. R st (st\<lparr>status := awaiting_message\<rparr>)"
  shows "R st (snd (handleIncomingResponse ext opts st r))"
    and "R st (snd (for_await ext opts st ps fl))"
    and "R st (snd (submitToolOutput ext opts st payload data))"
proof (induction ext opts st r and ext opts st ps fl and ext opts st payload data
       rule: handleIncomingResponse_for_await_submitToolOutput.induct)
  case (1 ext opts st)
  show ?case by (simp add: refl)
next
  case (2 ext opts st b)
  then show ?case
    by (cases "for_await ext opts st (parts b) (failure b)")
       (auto simp: catch_error_set_def split: option.splits)
next
  case (3 ext opts st fl)
  show ?case by (simp add: refl)
next
  case (4 ext opts st p ps fl)
  have s: "R st (hook_of (switch opts p st))" by (rule sw)
  show ?case
  proof (cases "switch opts p st")
    case (Thrown e st')
    with s show ?thesis by (simp add: hook_of_def)
  next
    case (Break st')
    with s 4(1)[OF Break] show ?thesis by (auto simp: hook_of_def intro: trans)
  next
    case (Submit outs st')
    let ?r = "submitToolOutput ext opts st' outs None"
    have a: "R st st'" using s Submit by (simp add: hook_of_def)
    have b: "R st' (snd ?r)" by (rule 4(2)[OF Submit])
    have c: "R (snd ?r) (catch_err ?r)"
      by (cases ?r) (auto simp: catch_err_def refl err split: option.splits)
    have d: "R (catch_err ?r) (snd (for_await ext opts (catch_err ?r) ps fl))"
      by (rule 4(3)[OF Submit])
    from a b c d have "R st (snd (for_await ext opts (catch_err ?r) ps fl))"
      by (blast intro: trans)
    with Submit show ?thesis by simp
  qed
next
  case (5 ext opts st payload data)
  show ?case
  proof (cases "post_tool_output ext opts st payload data")
    case (Pair x st')
    have a: "R st st'" using post[of st ext opts payload data] Pair by simp
    show ?thesis
    proof (cases x)
      case (Inl e)
      with Pair a show ?thesis by simp
    next
      case (Inr res)
      have b: "R st' (snd (handleIncomingResponse ext opts st' res))"
        by (rule 5[OF Pair[symmetric] Inr])
      show ?thesis
      proof (cases "handleIncomingResponse ext opts st' res")
        case (Pair t st'')
        with b have "R st' st''" by simp
        with a have c: "R st st''" by (rule trans)
        show ?thesis
        proof (cases t)
          case None
          from c stat[of st''] have "R st (st''\<lparr>status := awaiting_message\<rparr>)" by (rule trans)
          with None Pair Inr \<open>post_tool_output ext opts st payload data = (x, st')\<close>
          show ?thesis by simp
        next
          case (Some e)
          with c Pair Inr \<open>post_tool_output ext opts st payload data = (x, st')\<close>
          show ?thesis by simp
        qed
      qed
    qed
  qed
qed

subsection \<open>Requests are only ever added\<close>

lemma requests_switch: "requests (hook_of (switch opts p st)) = requests st"
  by (cases p)
     (auto simp: hook_of_def completed_def case_assistant_message_def case_data_message_def
        case_assistant_control_data_def case_error_def case_tool_calls_def await_handlers_def
        messages_append_def error_set_def
        Let_def split: list.splits content_block.splits option.splits sum.splits)

lemma requests_post_tool_output:
  "requests (snd (post_tool_output ext opts st payload data)) =
     requests st @
       [\<lparr>req_api = api opts, req_body = body opts,
         req_threadId = request_threadId opts st, req_message = None,
         req_content = Some payload, req_data = data, req_role = Some ''tool''\<rparr>]"
  by (simp add: post_tool_output_def fetch_def Let_def messages_append_def request_threadId_def
           split: list.splits option.splits)

lemma requests_prefix:
  "prefix (requests st) (requests (snd (handleIncomingResponse ext opts st r)))"
proof (rule consumer_preserves(1)[where R = "\<lambda>a b. prefix (requests a) (requests b)"])
  show "\<And>opts p st. prefix (requests st) (requests (hook_of (switch opts p st)))"
    by (simp add: requests_switch)
  show "\<And>ext opts st payload data.
          prefix (requests st) (requests (snd (post_tool_output ext opts st payload data)))"
    by (simp add: requests_post_tool_output)
qed (auto simp: error_set_def)

lemma requests_submitToolOutput:
  "\<exists>more. requests (snd (submitToolOutput ext opts st payload data)) =
     requests st @
       \<lparr>req_api = api opts, req_body = body opts,
        req_threadId = request_threadId opts st, req_message = None,
        req_content = Some payload, req_data = data, req_role = Some ''tool''\<rparr> # more"
proof (cases "post_tool_output ext opts st payload data")
  case (Pair x st')
  let ?rq = "\<lparr>req_api = api opts, req_body = body opts,
        req_threadId = request_threadId opts st, req_message = None,
        req_content = Some payload, req_data = data, req_role = Some ''tool''\<rparr>"
  have p: "requests st' = requests st @ [?rq]"
    using requests_post_tool_output[of ext opts st payload data] Pair by simp
  show ?thesis
  proof (cases x)
    case (Inl e)
    with Pair p show ?thesis by simp
  next
    case (Inr res)
    from requests_prefix[of st' ext opts res] obtain zs where
      zs: "requests (snd (handleIncomingResponse ext opts st' res)) = requests st' @ zs"
      by (auto simp: prefix_def)
    have "requests (snd (submitToolOutput ext opts st payload data)) =
            requests (snd (handleIncomingResponse ext opts st' res))"
      using Pair Inr by (auto split: prod.splits option.splits)
    with zs p show ?thesis by simp
  qed
qed

lemma requests_catch_err [simp]: "requests (catch_err r) = requests (snd r)"
  by (simp add: catch_err_def error_set_def split: prod.splits option.splits)

lemma submitToolOutput_resolved:
  "fst (submitToolOutput ext opts st payload data) = None \<Longrightarrow> network st \<noteq> []"
  by (auto simp: post_tool_output_def fetch_def Let_def messages_append_def
           split: list.splits)

text \<open>
  The hook with a tool handler settles every tool-calls event in one of three ways, and
  its loop then goes on with the next event. The case ends at its \<open>break\<close> with an
  error recorded and no request issued (no handler, or a handler failed). Or every
  handler succeeded and \<open>submitToolOutput\<close>, called with one output per requested call
  (the id of the call and the string its handler returned, in the order of the calls),
  resolved: the endpoint answered, and a request with role \<open>tool\<close> carrying exactly
  these outputs was issued. Or that call of \<open>submitToolOutput\<close> rejected, and what it
  rejected with is recorded as the error.
\<close>

theorem tool_calls_settled:
  "\<exists>st'. for_await ext opts st (Tool_calls tcs # ps) fl = for_await ext opts st' ps fl
     \<and> ((\<exists>e. switch opts (Tool_calls tcs) st = Break st' \<and> error st' = Some e
              \<and> requests st' = requests st)
        \<or> (\<exists>h outs st1 rq more.
              onToolCall opts = Some h
              \<and> switch opts (Tool_calls tcs) st = Submit outs st1
              \<and> length outs = length tcs
              \<and> (\<forall>i<length tcs.
                    out_tool_call_id (outs ! i) = tc_id (tcs ! i)
                    \<and> snd (h (handler_calls st + i) (tc_function (tcs ! i)))
                        = Inr (out_output (outs ! i)))
              \<and> submitToolOutput ext opts st1 outs None = (None, st')
              \<and> network st \<noteq> []
              \<and> requests st' = requests st @ rq # more
              \<and> req_content rq = Some outs \<and> req_role rq = Some ''tool'')
        \<or> (\<exists>outs st1 err st2.
              switch opts (Tool_calls tcs) st = Submit outs st1
              \<and> submitToolOutput ext opts st1 outs None = (Some err, st2)
              \<and> st' = error_set err st2
              \<and> error st' = Some err))"
proof -
  let ?st1 = "messages_append \<lparr>m_id = [], m_role = Tool, m_content = [],
                   m_data = None, m_tool_calls = Some tcs\<rparr> st"
  show ?thesis
  proof (cases "onToolCall opts")
    case None
    let ?st' = "error_set (JsString (no_handler_text tcs)) ?st1"
    have sw: "switch opts (Tool_calls tcs) st = Break ?st'"
      using None by (simp add: case_tool_calls_def Let_def)
    have "for_await ext opts st (Tool_calls tcs # ps) fl = for_await ext opts ?st' ps fl"
      by (simp only: for_await.simps sw switched.case)
    moreover have "error ?st' = Some (JsString (no_handler_text tcs))"
      by (simp add: error_set_def)
    moreover have "requests ?st' = requests st"
      by (simp add: error_set_def messages_append_def)
    ultimately show ?thesis using sw by blast
  next
    case (Some h)
    let ?pr = "invoke_handlers h (handler_calls st) tcs"
    let ?st2 = "?st1\<lparr>handler_calls := handler_calls st + length tcs\<rparr>"
    show ?thesis
    proof (cases "earliest_rejection ?pr")
      case (Some r)
      obtain t e where r: "r = (t, e)" by (cases r)
      let ?st' = "error_set e ?st2"
      have sw: "switch opts (Tool_calls tcs) st = Break ?st'"
        using \<open>onToolCall opts = Some h\<close> Some r
        by (simp add: case_tool_calls_def Let_def await_handlers_def Promise_all_def)
      have "for_await ext opts st (Tool_calls tcs # ps) fl = for_await ext opts ?st' ps fl"
        by (simp only: for_await.simps sw switched.case)
      moreover have "error ?st' = Some e" by (simp add: error_set_def)
      moreover have "requests ?st' = requests st"
        by (simp add: error_set_def messages_append_def)
      ultimately show ?thesis using sw by blast
    next
      case None
      let ?outs = "fulfilled ?pr"
      let ?r = "submitToolOutput ext opts ?st2 ?outs None"
      have sw: "switch opts (Tool_calls tcs) st = Submit ?outs ?st2"
        using \<open>onToolCall opts = Some h\<close> None
        by (simp add: case_tool_calls_def Let_def await_handlers_def Promise_all_def)
      have fa: "for_await ext opts st (Tool_calls tcs # ps) fl
                  = for_await ext opts (catch_err ?r) ps fl"
        by (simp only: for_await.simps sw switched.case)
      from fulfilled_all[OF None] have len: "length ?outs = length tcs"
        and nth: "\<forall>i<length tcs. snd (?pr ! i) = Inr (?outs ! i)"
        by simp_all
      have each: "\<forall>i<length tcs.
                    out_tool_call_id (?outs ! i) = tc_id (tcs ! i)
                    \<and> snd (h (handler_calls st + i) (tc_function (tcs ! i)))
                        = Inr (out_output (?outs ! i))"
        using nth invoke_handlers_fulfilled by blast
      obtain res st2 where r: "?r = (res, st2)" by (cases ?r)
      show ?thesis
      proof (cases res)
        case None
        with r have ce: "catch_err ?r = st2" by (simp add: catch_err_def)
        from r None have "fst ?r = None" by simp
        then have "network ?st2 \<noteq> []" by (rule submitToolOutput_resolved)
        then have net: "network st \<noteq> []" by (simp add: messages_append_def)
        from requests_submitToolOutput[of ext opts ?st2 ?outs None] r obtain more where
          "requests st2 =
             requests ?st2 @
               \<lparr>req_api = api opts, req_body = body opts,
                req_threadId = request_threadId opts ?st2, req_message = None,
                req_content = Some ?outs, req_data = None, req_role = Some ''tool''\<rparr> # more"
          by auto
        then have rq: "requests st2 = requests st @
               \<lparr>req_api = api opts, req_body = body opts,
                req_threadId = request_threadId opts ?st2, req_message = None,
                req_content = Some ?outs, req_data = None, req_role = Some ''tool''\<rparr> # more"
          by (simp add: messages_append_def)
        have "\<exists>h outs st1 rq more.
              onToolCall opts = Some h
              \<and> switch opts (Tool_calls tcs) st = Submit outs st1
              \<and> length outs = length tcs
              \<and> (\<forall>i<length tcs.
                    out_tool_call_id (outs ! i) = tc_id (tcs ! i)
                    \<and> snd (h (handler_calls st + i) (tc_function (tcs ! i)))
                        = Inr (out_output (outs ! i)))
              \<and> submitToolOutput ext opts st1 outs None = (None, st2)
              \<and> network st \<noteq> []
              \<and> requests st2 = requests st @ rq # more
              \<and> req_content rq = Some outs \<and> req_role rq = Some ''tool''"
          apply (rule exI[of _ h], rule exI[of _ ?outs], rule exI[of _ ?st2])
          apply (rule exI[of _ "\<lparr>req_api = api opts, req_body = body opts,
                req_threadId = request_threadId opts ?st2, req_message = None,
                req_content = Some ?outs, req_data = None, req_role = Some ''tool''\<rparr>"])
          apply (rule exI[of _ more])
          using \<open>onToolCall opts = Some h\<close> sw len each rq r None net apply simp
          done
        with fa ce show ?thesis by (intro exI[of _ st2]) simp
      next
        case (Some err)
        with r have ce: "catch_err ?r = error_set err st2" by (simp add: catch_err_def)
        have "error (error_set err st2) = Some err" by (simp add: error_set_def)
        with sw r Some have "\<exists>outs st1 err' st2'.
              switch opts (Tool_calls tcs) st = Submit outs st1
              \<and> submitToolOutput ext opts st1 outs None = (Some err', st2')
              \<and> error_set err st2 = error_set err' st2'
              \<and> error (error_set err st2) = Some err'"
          by blast
        with fa ce show ?thesis by (intro exI[of _ "error_set err st2"]) simp
      qed
    qed
  qed
qed

text \<open>
  Claim C3 against the code. The \<open>switch\<close> of the hook of
  \<open>packages/core/svelte/use-assistant.ts\<close> has no case for tool calls: a tool-calls
  event changes no store, and the loop goes on as if it had not been there. At the
  failing input (a response whose only event is a tool-calls event with two calls)
  \<open>submitMessage\<close> resolves with the user message as the only message, no error
  recorded and no request but its own.
\<close>

theorem svelte_hook_drops_tool_calls:
  "svelte_switch (Tool_calls tcs) st = (None, st)
   \<and> svelte_for_await st (Tool_calls tcs # ps) fl = svelte_for_await st ps fl
   \<and> svelte_submitMessage example_opts
        ((initial [Some \<lparr>parts = [Tool_calls two_calls], failure = None\<rparr>])\<lparr>input := ''hello''\<rparr>)
        None
       = (None,
          \<lparr>messages = [user_hello], input = [], threadId = None, status = awaiting_message,
           error = None, network = [],
           requests = [\<lparr>req_api = ''/api'', req_body = None, req_threadId = None,
                        req_message = Some ''hello'', req_content = None, req_data = None,
                        req_role = None\<rparr>],
           nanoid_calls = 0, handler_calls = 0\<rparr>)"
  by (simp add: svelte_submitMessage_def svelte_post_message_def fetch_def Let_def
        messages_append_def initial_def user_hello_def example_opts_def request_threadId_def)


subsection \<open>The history\<close>

lemma hook_of_completed [simp]: "hook_of (completed r) = snd r"
  by (cases r) (auto simp: hook_of_def completed_def split: option.splits)







lemma control_ids_control [simp]:
  "control_ids [Assistant_control_data v] = {cd_messageId v}"
  by (simp add: control_ids_def)

lemma network_ids_Cons [simp]:
  "network_ids (r # rs) = response_ids r \<union> network_ids rs"
  by (simp add: network_ids_def)
















end
